theory Spec2Isabelle
  imports Complex_Main
begin

section \<open>Python values\<close>

text \<open>
  Values decoded from JSON, which are also the dynamically typed values the monitor passes
  around. \<open>JNull\<close> is Python's \<open>None\<close>. A float is idealised as the real number it
  denotes; strings are ASCII. \<open>JObj\<close> holds the items of a dict, so its keys are distinct.
\<close>

datatype json =
    JNull
  | JBool bool
  | JInt int
  | JFloat real
  | JStr string
  | JList "json list"
  | JObj "(string \<times> json) list"

text \<open>The exceptions that occur in the modelled code.\<close>

datatype py_error = AttributeError | TypeError | ValueError | KeyError

text \<open>Truth value testing, as in \<open>if x:\<close>, \<open>not x\<close> and \<open>x or y\<close>.\<close>

fun truthy :: "json \<Rightarrow> bool" where
  "truthy JNull = False"
| "truthy (JBool b) = b"
| "truthy (JInt i) = (i \<noteq> 0)"
| "truthy (JFloat r) = (r \<noteq> 0)"
| "truthy (JStr s) = (s \<noteq> [])"
| "truthy (JList xs) = (xs \<noteq> [])"
| "truthy (JObj kvs) = (kvs \<noteq> [])"

text \<open>\<open>d.get(k, dflt)\<close> on a dict.\<close>

definition dict_get :: "(string \<times> json) list \<Rightarrow> string \<Rightarrow> json \<Rightarrow> json" where
  "dict_get d k dflt = (case map_of d k of None \<Rightarrow> dflt | Some v \<Rightarrow> v)"

text \<open>
  \<open>data.get(k, dflt)\<close> on an arbitrary value: only a dict has the method, every other
  value raises \<open>AttributeError\<close>.
\<close>

fun py_get :: "json \<Rightarrow> string \<Rightarrow> json \<Rightarrow> py_error + json" where
  "py_get (JObj d) k dflt = Inr (dict_get d k dflt)"
| "py_get _ k dflt = Inl AttributeError"

text \<open>\<open>x or 0\<close>.\<close>

definition or_zero :: "json \<Rightarrow> json" where
  "or_zero v = (if truthy v then v else JInt 0)"

text \<open>
  The number a value stands for in arithmetic and ordering comparisons with a number:
  \<open>bool\<close> is a subclass of \<open>int\<close>; every other non-number raises \<open>TypeError\<close>.
\<close>

fun num_of :: "json \<Rightarrow> real option" where
  "num_of (JBool b) = Some (if b then 1 else 0)"
| "num_of (JInt i) = Some (real_of_int i)"
| "num_of (JFloat r) = Some r"
| "num_of _ = None"

text \<open>\<open>isinstance(x, dict)\<close>.\<close>

fun is_dict :: "json \<Rightarrow> bool" where
  "is_dict (JObj d) = True"
| "is_dict _ = False"

text \<open>\<open>str.lower()\<close> on ASCII text.\<close>

definition lower_char :: "char \<Rightarrow> char" where
  "lower_char c =
     (case map_of (zip ''ABCDEFGHIJKLMNOPQRSTUVWXYZ'' ''abcdefghijklmnopqrstuvwxyz'') c of
        None \<Rightarrow> c
      | Some l \<Rightarrow> l)"

definition lower :: "string \<Rightarrow> string" where
  "lower s = map lower_char s"

text \<open>The decimal text of an integer, as an f-string renders it.\<close>

definition digit_char :: "nat \<Rightarrow> char" where
  "digit_char n = ''0123456789'' ! n"

function str_nat :: "nat \<Rightarrow> string" where
  "str_nat n =
     (if n < 10 then [digit_char n] else str_nat (n div 10) @ [digit_char (n mod 10)])"
  by pat_completeness auto
termination
  by (relation "measure id") auto

declare str_nat.simps [simp del]

definition str_int :: "int \<Rightarrow> string" where
  "str_int i = (if i < 0 then ''-'' @ str_nat (nat (- i)) else str_nat (nat i))"

section \<open>Cross-validation (cross\_validation.py)\<close>

text \<open>\<open>CrossValidator._evaluate_sources\<close>: \<open>(confidence, sources_agree, recommended_status)\<close>.\<close>

definition evaluate_sources :: "bool option \<Rightarrow> bool option \<Rightarrow> string \<times> bool \<times> bool" where
  "evaluate_sources huginn_is_active gmonads_is_active =
     (if huginn_is_active = None \<and> gmonads_is_active = None then (''low'', True, False)
      else if huginn_is_active \<noteq> None \<and> gmonads_is_active = None
        then (''medium'', True, the huginn_is_active)
      else if huginn_is_active = None \<and> gmonads_is_active \<noteq> None
        then (''medium'', True, the gmonads_is_active)
      else if huginn_is_active = gmonads_is_active then (''high'', True, the huginn_is_active)
      else (''low'', False, the huginn_is_active))"

section \<open>Validator lifecycle state machine (state\_machine.py)\<close>

datatype ValidatorState = NEW | ACTIVE | INACTIVE

text \<open>The enum member's \<open>.value\<close>.\<close>

fun state_value :: "ValidatorState \<Rightarrow> string" where
  "state_value NEW = ''new''"
| "state_value ACTIVE = ''active''"
| "state_value INACTIVE = ''inactive''"

text \<open>
  The lookup \<open>ValidatorState(v)\<close>: a value that is no member's value raises \<open>ValueError\<close>
  (also when it is unhashable).
\<close>

definition ValidatorState_of :: "json \<Rightarrow> py_error + ValidatorState" where
  "ValidatorState_of v =
     (if v = JStr ''new'' then Inr NEW
      else if v = JStr ''active'' then Inr ACTIVE
      else if v = JStr ''inactive'' then Inr INACTIVE
      else Inl ValueError)"

record StateTransition =
  from_state :: ValidatorState
  to_state :: ValidatorState
  transition_validator_name :: string
  timestamp :: real
  metadata :: "(string \<times> json) list"

definition is_significant :: "StateTransition \<Rightarrow> bool" where
  "is_significant t = (from_state t \<noteq> to_state t)"

text \<open>\<open>_state_entered_at\<close> is a float, but \<open>from_dict\<close> stores whatever the file held.\<close>

record ValidatorStateMachine =
  validator_name :: string
  current_state :: ValidatorState
  state_entered_at :: json
  transition_history :: "StateTransition list"

text \<open>
  \<open>__init__\<close>; \<open>now\<close> is the reading of \<open>time.time()\<close>. Enum members are truthy, so
  \<open>initial_state or ValidatorState.NEW\<close> replaces \<open>None\<close> only.
\<close>

definition init_machine :: "real \<Rightarrow> string \<Rightarrow> ValidatorState option \<Rightarrow> ValidatorStateMachine" where
  "init_machine now name initial_state =
     \<lparr> validator_name = name,
       current_state = (case initial_state of None \<Rightarrow> NEW | Some s \<Rightarrow> s),
       state_entered_at = JFloat now,
       transition_history = [] \<rparr>"

text \<open>\<open>update\<close>: the transition it returns, and the machine after the call.\<close>

definition update ::
  "real \<Rightarrow> bool \<Rightarrow> bool \<Rightarrow> (string \<times> json) list option \<Rightarrow> ValidatorStateMachine
     \<Rightarrow> StateTransition option \<times> ValidatorStateMachine" where
  "update now is_active is_ever_active meta m =
     (let new_state = (if is_active then ACTIVE else if is_ever_active then INACTIVE else NEW)
      in if new_state = current_state m then (None, m)
         else
           (let transition =
                  \<lparr> from_state = current_state m,
                    to_state = new_state,
                    transition_validator_name = validator_name m,
                    timestamp = now,
                    metadata = (case meta of None \<Rightarrow> [] | Some d \<Rightarrow> d) \<rparr>
            in (Some transition,
                m\<lparr> current_state := new_state,
                   state_entered_at := JFloat now,
                   transition_history := transition_history m @ [transition] \<rparr>)))"

definition to_dict :: "ValidatorStateMachine \<Rightarrow> json" where
  "to_dict m =
     JObj [(''validator_name'', JStr (validator_name m)),
           (''current_state'', JStr (state_value (current_state m))),
           (''state_entered_at'', state_entered_at m),
           (''transition_count'', JInt (int (length (transition_history m))))]"

text \<open>
  \<open>from_dict\<close>. Every \<open>data.get\<close> is modelled with its \<open>AttributeError\<close> and the enum
  lookup with its \<open>ValueError\<close>, which the \<open>try\<close> catches.
\<close>

definition from_dict :: "real \<Rightarrow> json \<Rightarrow> py_error + ValidatorStateMachine" where
  "from_dict now data =
     (if data = JNull \<or> \<not> is_dict data then Inr (init_machine now ''unknown'' (Some NEW))
      else
        case py_get data ''validator_name'' JNull of
          Inl e \<Rightarrow> Inl e
        | Inr name_value \<Rightarrow>
            (let name = (case name_value of
                           JStr s \<Rightarrow> if s = [] then ''unknown'' else s
                         | _ \<Rightarrow> ''unknown'')
             in case py_get data ''current_state'' JNull of
                  Inl e \<Rightarrow> Inl e
                | Inr current_state_value \<Rightarrow>
                    (let initial_state =
                           (if current_state_value \<noteq> JNull
                            then (case ValidatorState_of current_state_value of
                                    Inr s \<Rightarrow> s
                                  | Inl e \<Rightarrow> NEW)
                            else NEW)
                     in case py_get data ''state_entered_at'' (JFloat now) of
                          Inl e \<Rightarrow> Inl e
                        | Inr entered \<Rightarrow>
                            Inr ((init_machine now name (Some initial_state))
                                   \<lparr> state_entered_at := entered \<rparr>))))"

text \<open>
  What \<open>load_state\<close> finds at the path: no file, an empty file, a file that cannot be
  read (\<open>OSError\<close>), or contents that \<open>json.load\<close> decodes (\<open>Some\<close>) or rejects
  with \<open>JSONDecodeError\<close> (\<open>None\<close>).
\<close>

datatype state_file = Missing | EmptyFile | Unreadable | Contents "json option"

definition load_state :: "real \<Rightarrow> state_file \<Rightarrow> ValidatorStateMachine" where
  "load_state now f =
     (let default_machine = init_machine now ''unknown'' (Some NEW)
      in case f of
           Missing \<Rightarrow> default_machine
         | EmptyFile \<Rightarrow> default_machine
         | Unreadable \<Rightarrow> default_machine
         | Contents None \<Rightarrow> default_machine
         | Contents (Some data) \<Rightarrow>
             (case from_dict now data of Inr m \<Rightarrow> m | Inl e \<Rightarrow> default_machine))"

section \<open>Huginn client (huginn.py)\<close>

subsection \<open>Constants and configuration\<close>

definition ACTIVE_SET_ROUND_THRESHOLD :: int where
  "ACTIVE_SET_ROUND_THRESHOLD = 10000"

definition MAX_RETRIES :: nat where
  "MAX_RETRIES = 3"

definition RETRY_BASE_DELAY :: real where
  "RETRY_BASE_DELAY = 1.0"

definition RETRY_MAX_DELAY :: real where
  "RETRY_MAX_DELAY = 5.0"

definition CIRCUIT_BREAKER_FAILURE_THRESHOLD :: int where
  "CIRCUIT_BREAKER_FAILURE_THRESHOLD = 5"

definition CIRCUIT_BREAKER_RECOVERY_TIME :: int where
  "CIRCUIT_BREAKER_RECOVERY_TIME = 60"

definition DEFAULT_ENDPOINTS :: "string \<rightharpoonup> string" where
  "DEFAULT_ENDPOINTS =
     [''testnet'' \<mapsto> ''https://validator-api-testnet.huginn.tech/monad-api'',
      ''mainnet'' \<mapsto> ''https://validator-api.huginn.tech/monad-api'']"

definition REFERENCE_VALIDATOR_IDS :: "string \<rightharpoonup> int list" where
  "REFERENCE_VALIDATOR_IDS = [''testnet'' \<mapsto> [1, 2, 3, 4, 5], ''mainnet'' \<mapsto> [1, 2, 3, 4, 5]]"

record HuginnConfig =
  endpoints :: "string \<rightharpoonup> string"
  enabled :: bool
  check_interval :: int
  timeout :: int
  base_url :: "string option"

definition default_config :: HuginnConfig where
  "default_config =
     \<lparr> endpoints = DEFAULT_ENDPOINTS, enabled = True, check_interval = 3600, timeout = 10,
       base_url = None \<rparr>"

text \<open>\<open>get_endpoint\<close>: a non-empty \<open>base_url\<close> overrides the per-network endpoints.\<close>

definition get_endpoint :: "HuginnConfig \<Rightarrow> string option \<Rightarrow> string" where
  "get_endpoint cfg network =
     (if base_url cfg \<noteq> None \<and> base_url cfg \<noteq> Some [] then the (base_url cfg)
      else
        (let network_key =
               lower (case network of None \<Rightarrow> ''testnet''
                      | Some n \<Rightarrow> if n = [] then ''testnet'' else n)
         in case endpoints cfg network_key of
              Some e \<Rightarrow> e
            | None \<Rightarrow>
                (case endpoints cfg ''testnet'' of
                   Some e \<Rightarrow> e
                 | None \<Rightarrow> ''https://validator-api-testnet.huginn.tech/monad-api'')))"

subsection \<open>Uptime records\<close>

text \<open>A round difference is an \<open>int\<close>, or a \<open>float\<close> when the API sent one.\<close>

datatype pynum = PInt int | PFloat real

text \<open>
  The dataclass \<open>ValidatorUptime\<close>. Fields that are copied from the response hold
  whatever value the response had. \<open>uptime_percent\<close> holds the exact quotient: the
  rounding to two decimals is a floating-point operation and is left out.
\<close>

record ValidatorUptime =
  validator_id :: json
  uptime_validator_name :: json
  secp_address :: string
  is_active :: bool
  is_ever_active :: bool
  uptime_percent :: real
  finalized_count :: json
  timeout_count :: json
  total_events :: json
  last_round :: json
  last_block_height :: json
  since_utc :: json
  fetched_at :: real
  round_diff :: "pynum option"
  current_network_round :: "int option"
  confidence :: string

text \<open>\<open>n - v\<close> for an \<open>int\<close> \<open>n\<close>.\<close>

fun py_sub :: "int \<Rightarrow> json \<Rightarrow> py_error + pynum" where
  "py_sub n (JBool b) = Inr (PInt (n - (if b then 1 else 0)))"
| "py_sub n (JInt r) = Inr (PInt (n - r))"
| "py_sub n (JFloat r) = Inr (PFloat (real_of_int n - r))"
| "py_sub n _ = Inl TypeError"

text \<open>\<open>x <= k\<close> for an \<open>int\<close> \<open>k\<close>.\<close>

fun num_le :: "pynum \<Rightarrow> int \<Rightarrow> bool" where
  "num_le (PInt i) k = (i \<le> k)"
| "num_le (PFloat r) k = (r \<le> real_of_int k)"

text \<open>
  The block of \<open>_parse_uptime_response\<close> that computes \<open>uptime_percent\<close> from
  \<open>finalized\<close> and the number \<open>total_events\<close>.
\<close>

definition uptime_percentage :: "json \<Rightarrow> real \<Rightarrow> py_error + real" where
  "uptime_percentage finalized events =
     (if 0 < events
      then (case num_of finalized of
              None \<Rightarrow> Inl TypeError
            | Some f \<Rightarrow> Inr (f / events * 100))
      else Inr 0)"

text \<open>
  The block of \<open>_parse_uptime_response\<close> that determines the active-set status:
  \<open>(round_diff, is_active, confidence)\<close>.
\<close>

definition active_status ::
  "int option \<Rightarrow> json \<Rightarrow> bool \<Rightarrow> bool \<Rightarrow> py_error + (pynum option \<times> bool \<times> string)" where
  "active_status network_round validator_last_round ever_active used_cached_round =
     (if network_round \<noteq> None \<and> validator_last_round \<noteq> JNull
      then (case py_sub (the network_round) validator_last_round of
              Inl e \<Rightarrow> Inl e
            | Inr diff \<Rightarrow>
                Inr (Some diff, num_le diff ACTIVE_SET_ROUND_THRESHOLD,
                     if used_cached_round then ''medium'' else ''high''))
      else if ever_active then Inr (None, False, ''unknown'')
      else Inr (None, False, ''high''))"

text \<open>
  \<open>_parse_uptime_response\<close>; \<open>now\<close> is the reading of \<open>time.time()\<close>. The result is
  the raised exception, \<open>None\<close>, or the record.
\<close>

definition parse_uptime_response ::
  "real \<Rightarrow> string \<Rightarrow> json \<Rightarrow> int option \<Rightarrow> bool \<Rightarrow> py_error + ValidatorUptime option" where
  "parse_uptime_response now secp data network_round used_cached_round =
     (if \<not> truthy data then Inr None
      else
        case data of
          JObj d \<Rightarrow>
            (let events_value = or_zero (dict_get d ''total_events'' (JInt 0))
             in case num_of events_value of
                  None \<Rightarrow> Inl TypeError
                | Some events \<Rightarrow>
                    (let ever_active = (0 < events);
                         finalized = or_zero (dict_get d ''finalized_count'' (JInt 0));
                         timeouts = or_zero (dict_get d ''timeout_count'' (JInt 0))
                     in case uptime_percentage finalized events of
                          Inl e \<Rightarrow> Inl e
                        | Inr percent \<Rightarrow>
                            (let validator_last_round = dict_get d ''last_round'' JNull
                             in case active_status network_round validator_last_round
                                       ever_active used_cached_round of
                                  Inl e \<Rightarrow> Inl e
                                | Inr (diff, active, conf) \<Rightarrow>
                                    Inr (Some
                                      \<lparr> validator_id = dict_get d ''validator_id'' JNull,
                                        uptime_validator_name = dict_get d ''validator_name'' JNull,
                                        secp_address = secp,
                                        is_active = active,
                                        is_ever_active = ever_active,
                                        uptime_percent = percent,
                                        finalized_count = finalized,
                                        timeout_count = timeouts,
                                        total_events = events_value,
                                        last_round = validator_last_round,
                                        last_block_height = dict_get d ''last_block_height'' JNull,
                                        since_utc = dict_get d ''since_utc'' JNull,
                                        fetched_at = now,
                                        round_diff = diff,
                                        current_network_round = network_round,
                                        confidence = conf \<rparr>))))
        | _ \<Rightarrow> Inl AttributeError)"

subsection \<open>Circuit breaker\<close>

datatype CircuitState = CLOSED | OPEN | HALF_OPEN

record CircuitBreaker =
  failure_threshold :: int
  recovery_time :: int
  failure_count :: int
  state :: CircuitState
  last_failure_time :: "real option"

definition new_breaker :: "int \<Rightarrow> int \<Rightarrow> CircuitBreaker" where
  "new_breaker threshold recovery =
     \<lparr> failure_threshold = threshold, recovery_time = recovery, failure_count = 0,
       state = CLOSED, last_failure_time = None \<rparr>"

text \<open>
  \<open>can_execute\<close> at clock reading \<open>now\<close>: the answer and the breaker after the call.
  The test \<open>self.last_failure_time and ...\<close> is a truth test, so a recorded time of
  \<open>0.0\<close> counts like \<open>None\<close>.
\<close>

definition can_execute :: "real \<Rightarrow> CircuitBreaker \<Rightarrow> bool \<times> CircuitBreaker" where
  "can_execute now cb =
     (if state cb = CLOSED then (True, cb)
      else if state cb = OPEN then
        (if (case last_failure_time cb of
               None \<Rightarrow> False
             | Some t \<Rightarrow> t \<noteq> 0 \<and> now - t \<ge> real_of_int (recovery_time cb))
         then (True, cb\<lparr>state := HALF_OPEN\<rparr>)
         else (False, cb))
      else (True, cb))"

definition record_success :: "CircuitBreaker \<Rightarrow> CircuitBreaker" where
  "record_success cb = cb\<lparr>failure_count := 0, state := CLOSED\<rparr>"

definition record_failure :: "real \<Rightarrow> CircuitBreaker \<Rightarrow> CircuitBreaker" where
  "record_failure now cb =
     (let cb1 = cb\<lparr>failure_count := failure_count cb + 1, last_failure_time := Some now\<rparr>
      in if failure_count cb1 \<ge> failure_threshold cb1 then cb1\<lparr>state := OPEN\<rparr> else cb1)"

definition is_open :: "CircuitBreaker \<Rightarrow> bool" where
  "is_open cb = (state cb = OPEN)"

text \<open>Consecutive \<open>record_failure()\<close> calls, one at each of the given clock readings.\<close>

definition record_failures :: "real list \<Rightarrow> CircuitBreaker \<Rightarrow> CircuitBreaker" where
  "record_failures ts cb = foldl (\<lambda>c t. record_failure t c) cb ts"

subsection \<open>The outside world\<close>

text \<open>
  A response of the HTTP library: its status code, and what \<open>response.json()\<close> gives,
  \<open>None\<close> when it raises \<open>ValueError\<close>. An attempt either returns a response or raises
  \<open>RequestException\<close>.
\<close>

datatype response = Response (status_code: int) (json_body: "json option")

datatype http_outcome = Returned response | Raised

text \<open>
  The servers: the outcome of \<open>requests.get(url)\<close> depends on the URL and on how many
  requests were made before.
\<close>

type_synonym http_env = "string \<Rightarrow> nat \<Rightarrow> http_outcome"

text \<open>What the client does to its surroundings, in order.\<close>

datatype event = Get string | Sleep real | RecordSuccess | RecordFailure

text \<open>
  The clock read by \<open>time.time()\<close> and advanced by \<open>time.sleep\<close>, the number of
  requests made so far, and the log of events.
\<close>

record world =
  clock :: real
  attempts :: nat
  events :: "event list"

definition log_event :: "event \<Rightarrow> world \<Rightarrow> world" where
  "log_event e w = w\<lparr>events := events w @ [e]\<rparr>"

definition http_get :: "http_env \<Rightarrow> string \<Rightarrow> world \<Rightarrow> http_outcome \<times> world" where
  "http_get env url w =
     (env url (attempts w), log_event (Get url) (w\<lparr>attempts := Suc (attempts w)\<rparr>))"

definition sleep :: "real \<Rightarrow> world \<Rightarrow> world" where
  "sleep d w = log_event (Sleep d) (w\<lparr>clock := clock w + d\<rparr>)"

subsection \<open>Fetching with retry\<close>

record HuginnClient =
  config :: HuginnConfig
  cache :: "string \<rightharpoonup> ValidatorUptime"
  cache_times :: "string \<rightharpoonup> real"
  network_rounds :: "string \<rightharpoonup> int"
  network_round_times :: "string \<rightharpoonup> real"
  network_round_ttl :: int
  circuit_breakers :: "string \<rightharpoonup> CircuitBreaker"

definition new_client :: "HuginnConfig \<Rightarrow> HuginnClient" where
  "new_client cfg =
     \<lparr> config = cfg, cache = Map.empty, cache_times = Map.empty, network_rounds = Map.empty,
       network_round_times = Map.empty, network_round_ttl = 300,
       circuit_breakers = Map.empty \<rparr>"

definition get_circuit_breaker :: "HuginnClient \<Rightarrow> string \<Rightarrow> CircuitBreaker \<times> HuginnClient" where
  "get_circuit_breaker c network =
     (let network_key = lower network
      in case circuit_breakers c network_key of
           Some cb \<Rightarrow> (cb, c)
         | None \<Rightarrow>
             (let cb = new_breaker CIRCUIT_BREAKER_FAILURE_THRESHOLD CIRCUIT_BREAKER_RECOVERY_TIME
              in (cb, c\<lparr>circuit_breakers := (circuit_breakers c)(network_key \<mapsto> cb)\<rparr>)))"

definition retry_delay :: "nat \<Rightarrow> real" where
  "retry_delay attempt = min (RETRY_BASE_DELAY * 2 ^ attempt) RETRY_MAX_DELAY"

text \<open>
  The loop \<open>for attempt in range(MAX_RETRIES)\<close> of \<open>_fetch_with_retry\<close>, from the given
  attempt on, and the code after the loop. After a \<open>RequestException\<close> on the last
  attempt the loop ends and the code after it runs.
\<close>

function retry_loop ::
  "http_env \<Rightarrow> string \<Rightarrow> nat \<Rightarrow> CircuitBreaker \<Rightarrow> world
     \<Rightarrow> response option \<times> CircuitBreaker \<times> world" where
  "retry_loop env url attempt cb w =
     (if attempt < MAX_RETRIES then
        (case http_get env url w of
           (Returned r, w1) \<Rightarrow>
             if status_code r < 500 then (Some r, record_success cb, log_event RecordSuccess w1)
             else if attempt < MAX_RETRIES - 1
               then retry_loop env url (attempt + 1) cb (sleep (retry_delay attempt) w1)
             else (Some r, record_failure (clock w1) cb, log_event RecordFailure w1)
         | (Raised, w1) \<Rightarrow>
             if attempt < MAX_RETRIES - 1
               then retry_loop env url (attempt + 1) cb (sleep (retry_delay attempt) w1)
             else retry_loop env url (attempt + 1) cb w1)
      else (None, record_failure (clock w) cb, log_event RecordFailure w))"
  by pat_completeness auto
termination
  by (relation "measure (\<lambda>(env, url, attempt, cb, w). MAX_RETRIES - attempt)") auto

declare retry_loop.simps [simp del]

text \<open>
  \<open>_fetch_with_retry\<close>. The breaker is an object held in the client's dict, so what the
  calls do to it is stored back. The timeout is the HTTP library's business and left out.
\<close>

definition fetch_with_retry ::
  "http_env \<Rightarrow> string \<Rightarrow> string \<Rightarrow> HuginnClient \<Rightarrow> world
     \<Rightarrow> response option \<times> HuginnClient \<times> world" where
  "fetch_with_retry env url network c w =
     (case get_circuit_breaker c network of
        (cb, c1) \<Rightarrow>
          (case can_execute (clock w) cb of
             (allowed, cb1) \<Rightarrow>
               if \<not> allowed then (None, c1, w)
               else
                 (case retry_loop env url 0 cb1 w of
                    (r, cb2, w2) \<Rightarrow>
                      (r, c1\<lparr>circuit_breakers := (circuit_breakers c1)(lower network \<mapsto> cb2)\<rparr>,
                       w2))))"

subsection \<open>Network round\<close>

text \<open>The fields of \<open>EpochValidator\<close> (gmonads.py) that the Huginn client reads.\<close>

record EpochValidator =
  val_index :: "int option"
  validator_set_type :: string

text \<open>
  The \<open>gmonads_client\<close> argument: what its \<open>get_epoch_validators(network)\<close> does, which is
  to raise or to return a list or \<open>None\<close>.
\<close>

datatype gmonads_reply = GmRaises | GmReturns "EpochValidator list option"

type_synonym gmonads_client = "string \<Rightarrow> gmonads_reply"

definition get_active_validator_id_via_gmonads ::
  "string \<Rightarrow> gmonads_client option \<Rightarrow> int option" where
  "get_active_validator_id_via_gmonads network gm =
     (case gm of
        None \<Rightarrow> None
      | Some client \<Rightarrow>
          (case client network of
             GmRaises \<Rightarrow> None
           | GmReturns None \<Rightarrow> None
           | GmReturns (Some validators) \<Rightarrow>
               (case find (\<lambda>v. validator_set_type v = ''active'') validators of
                  None \<Rightarrow> None
                | Some v \<Rightarrow> val_index v)))"

text \<open>
  \<open>current_round and isinstance(current_round, int)\<close>: a non-zero \<open>int\<close>; \<open>True\<close> is the
  \<open>int\<close> 1.
\<close>

fun int_round :: "json \<Rightarrow> int option" where
  "int_round (JInt i) = (if i \<noteq> 0 then Some i else None)"
| "int_round (JBool b) = (if b then Some 1 else None)"
| "int_round _ = None"

text \<open>
  The round a decoded body reports:
  \<open>data.get("success") and "uptime" in data\<close>, then \<open>data["uptime"].get("last_round")\<close>.
\<close>

definition reported_round :: "json \<Rightarrow> py_error + int option" where
  "reported_round data =
     (case py_get data ''success'' JNull of
        Inl e \<Rightarrow> Inl e
      | Inr success \<Rightarrow>
          if \<not> truthy success then Inr None
          else
            (case data of
               JObj d \<Rightarrow>
                 (case map_of d ''uptime'' of
                    None \<Rightarrow> Inr None
                  | Some uptime \<Rightarrow>
                      (case py_get uptime ''last_round'' JNull of
                         Inl e \<Rightarrow> Inl e
                       | Inr current_round \<Rightarrow> Inr (int_round current_round)))
             | _ \<Rightarrow> Inl AttributeError))"

definition uptime_url :: "string \<Rightarrow> string \<Rightarrow> string" where
  "uptime_url base path = base @ ''/validator/uptime/'' @ path"

text \<open>
  Strategy 1 of \<open>_get_current_network_round\<close>: the validator that gmonads named.
  A \<open>ValueError\<close> of \<open>response.json()\<close> is caught.
\<close>

definition query_hinted_validator ::
  "http_env \<Rightarrow> string \<Rightarrow> string \<Rightarrow> int \<Rightarrow> HuginnClient \<Rightarrow> world
     \<Rightarrow> py_error + (int option \<times> HuginnClient \<times> world)" where
  "query_hinted_validator env base network active_validator_id c w =
     (case fetch_with_retry env (uptime_url base (str_int active_validator_id)) network c w of
        (None, c1, w1) \<Rightarrow> Inr (None, c1, w1)
      | (Some r, c1, w1) \<Rightarrow>
          if status_code r = 200 then
            (case json_body r of
               None \<Rightarrow> Inr (None, c1, w1)
             | Some data \<Rightarrow>
                 (case reported_round data of
                    Inl e \<Rightarrow> Inl e
                  | Inr current_round \<Rightarrow> Inr (current_round, c1, w1)))
          else Inr (None, c1, w1))"

text \<open>
  The loop over the reference validators of strategy 2, collecting
  \<open>successful_rounds\<close>.
\<close>

fun query_reference_validators ::
  "http_env \<Rightarrow> string \<Rightarrow> string \<Rightarrow> int list \<Rightarrow> int list \<Rightarrow> HuginnClient \<Rightarrow> world
     \<Rightarrow> py_error + (int list \<times> HuginnClient \<times> world)" where
  "query_reference_validators env base network [] successful_rounds c w =
     Inr (successful_rounds, c, w)"
| "query_reference_validators env base network (ref_id # ref_ids) successful_rounds c w =
     (case fetch_with_retry env (uptime_url base (str_int ref_id)) network c w of
        (None, c1, w1) \<Rightarrow>
          query_reference_validators env base network ref_ids successful_rounds c1 w1
      | (Some r, c1, w1) \<Rightarrow>
          if status_code r = 429
            then query_reference_validators env base network ref_ids successful_rounds c1 w1
          else if status_code r \<ge> 400
            then query_reference_validators env base network ref_ids successful_rounds c1 w1
          else
            (case json_body r of
               None \<Rightarrow>
                 query_reference_validators env base network ref_ids successful_rounds c1 w1
             | Some data \<Rightarrow>
                 (case reported_round data of
                    Inl e \<Rightarrow> Inl e
                  | Inr None \<Rightarrow>
                      query_reference_validators env base network ref_ids successful_rounds c1 w1
                  | Inr (Some current_round) \<Rightarrow>
                      query_reference_validators env base network ref_ids
                        (successful_rounds @ [current_round]) c1 w1)))"

text \<open>\<open>max\<close> of a non-empty list.\<close>

fun py_max :: "int list \<Rightarrow> int" where
  "py_max [] = 0"
| "py_max (x # xs) = fold max xs x"

text \<open>
  Strategy 2 of \<open>_get_current_network_round\<close>, the multi-validator fallback, down to the
  end of the function; \<open>now\<close> is the clock reading taken when the function was entered.
\<close>

definition multi_validator_strategy ::
  "http_env \<Rightarrow> string \<Rightarrow> string \<Rightarrow> real \<Rightarrow> HuginnClient \<Rightarrow> world
     \<Rightarrow> py_error + ((int option \<times> bool) \<times> HuginnClient \<times> world)" where
  "multi_validator_strategy env base network now c w =
     (let network_key = lower network;
          ref_ids = (case REFERENCE_VALIDATOR_IDS network_key of None \<Rightarrow> [1] | Some ids \<Rightarrow> ids)
      in case query_reference_validators env base network ref_ids [] c w of
           Inl e \<Rightarrow> Inl e
         | Inr (successful_rounds, c1, w1) \<Rightarrow>
             if successful_rounds \<noteq> [] then
               (let max_round = py_max successful_rounds
                in Inr ((Some max_round, False),
                        c1\<lparr>network_rounds := (network_rounds c1)(network_key \<mapsto> max_round),
                           network_round_times := (network_round_times c1)(network_key \<mapsto> now)\<rparr>,
                        w1))
             else
               (let cached_round = network_rounds c1 network_key
                in Inr ((cached_round, cached_round \<noteq> None), c1, w1)))"

definition get_current_network_round ::
  "http_env \<Rightarrow> string \<Rightarrow> gmonads_client option \<Rightarrow> HuginnClient \<Rightarrow> world
     \<Rightarrow> py_error + ((int option \<times> bool) \<times> HuginnClient \<times> world)" where
  "get_current_network_round env network gm c w =
     (let network_key = lower network;
          now = clock w;
          cached_time = (case network_round_times c network_key of None \<Rightarrow> 0 | Some t \<Rightarrow> t)
      in if network_rounds c network_key \<noteq> None
            \<and> now - cached_time < real_of_int (network_round_ttl c)
         then Inr ((network_rounds c network_key, True), c, w)
         else
           (let base = get_endpoint (config c) (Some network)
            in case get_active_validator_id_via_gmonads network gm of
                 None \<Rightarrow> multi_validator_strategy env base network now c w
               | Some active_validator_id \<Rightarrow>
                   (case query_hinted_validator env base network active_validator_id c w of
                      Inl e \<Rightarrow> Inl e
                    | Inr (Some current_round, c1, w1) \<Rightarrow>
                        Inr ((Some current_round, False),
                             c1\<lparr>network_rounds := (network_rounds c1)(network_key \<mapsto> current_round),
                                network_round_times :=
                                  (network_round_times c1)(network_key \<mapsto> now)\<rparr>,
                             w1)
                    | Inr (None, c1, w1) \<Rightarrow>
                        multi_validator_strategy env base network now c1 w1)))"

subsection \<open>Uptime of a validator\<close>

definition get_validator_uptime ::
  "http_env \<Rightarrow> string option \<Rightarrow> string \<Rightarrow> gmonads_client option \<Rightarrow> HuginnClient \<Rightarrow> world
     \<Rightarrow> py_error + (ValidatorUptime option \<times> HuginnClient \<times> world)" where
  "get_validator_uptime env secp_opt network gm c w =
     (case secp_opt of
        None \<Rightarrow> Inr (None, c, w)
      | Some secp \<Rightarrow>
          if secp = [] then Inr (None, c, w)
          else
            (let now = clock w;
                 cache_key = lower network @ '':'' @ lower secp;
                 cached_time = (case cache_times c cache_key of None \<Rightarrow> 0 | Some t \<Rightarrow> t)
             in if cache c cache_key \<noteq> None
                   \<and> now - cached_time < real_of_int (check_interval (config c))
                then Inr (cache c cache_key, c, w)
                else
                  (case get_current_network_round env network gm c w of
                     Inl e \<Rightarrow> Inl e
                   | Inr ((network_round, used_cached_round), c1, w1) \<Rightarrow>
                       (let base = get_endpoint (config c1) (Some network)
                        in case fetch_with_retry env (uptime_url base secp) network c1 w1 of
                             (None, c2, w2) \<Rightarrow> Inr (cache c2 cache_key, c2, w2)
                           | (Some r, c2, w2) \<Rightarrow>
                               if status_code r = 429 then Inr (cache c2 cache_key, c2, w2)
                               else if status_code r \<ge> 400 then Inr (cache c2 cache_key, c2, w2)
                               else
                                 (case json_body r of
                                    None \<Rightarrow> Inr (cache c2 cache_key, c2, w2)
                                  | Some response_data \<Rightarrow>
                                      (let data =
                                             (case response_data of
                                                JObj d \<Rightarrow> dict_get d ''uptime'' response_data
                                              | _ \<Rightarrow> response_data)
                                       in case parse_uptime_response (clock w2) secp data
                                                 network_round used_cached_round of
                                            Inl e \<Rightarrow> Inl e
                                          | Inr None \<Rightarrow> Inr (None, c2, w2)
                                          | Inr (Some uptime) \<Rightarrow>
                                              Inr (Some uptime,
                                                   c2\<lparr>cache := (cache c2)(cache_key \<mapsto> uptime),
                                                      cache_times :=
                                                        (cache_times c2)(cache_key \<mapsto> now)\<rparr>,
                                                   w2)))))))"

text \<open>
  How an f-string renders a round difference; the text of a float is Python's own and is
  a parameter.
\<close>

fun format_num :: "(real \<Rightarrow> string) \<Rightarrow> pynum \<Rightarrow> string" where
  "format_num float_repr (PInt i) = str_int i"
| "format_num float_repr (PFloat r) = float_repr r"

text \<open>
  What \<open>get_active_set_status\<close> makes of the record it fetched:
  \<open>(is_active, status_message, round_diff)\<close>.
\<close>

definition active_set_status ::
  "(real \<Rightarrow> string) \<Rightarrow> ValidatorUptime option \<Rightarrow> bool option \<times> string \<times> pynum option" where
  "active_set_status float_repr uptime_opt =
     (case uptime_opt of
        None \<Rightarrow> (None, ''Unable to fetch data'', None)
      | Some uptime \<Rightarrow>
          if \<not> is_ever_active uptime
            then (Some False, ''Never participated in consensus'', Some (PInt 0))
          else
            (case round_diff uptime of
               None \<Rightarrow> (Some True, ''Active (no round comparison available)'', None)
             | Some diff \<Rightarrow>
                 if is_active uptime
                   then (Some True, ''Active ('' @ format_num float_repr diff @ '' rounds behind)'',
                         Some diff)
                 else (Some False,
                       ''Inactive ('' @ format_num float_repr diff
                         @ '' rounds behind - exceeds threshold of ''
                         @ str_int ACTIVE_SET_ROUND_THRESHOLD @ '')'',
                       Some diff)))"

definition get_active_set_status ::
  "(real \<Rightarrow> string) \<Rightarrow> http_env \<Rightarrow> string option \<Rightarrow> string \<Rightarrow> HuginnClient \<Rightarrow> world
     \<Rightarrow> py_error + ((bool option \<times> string \<times> pynum option) \<times> HuginnClient \<times> world)" where
  "get_active_set_status float_repr env secp_opt network c w =
     (case get_validator_uptime env secp_opt network None c w of
        Inl e \<Rightarrow> Inl e
      | Inr (uptime_opt, c1, w1) \<Rightarrow> Inr (active_set_status float_repr uptime_opt, c1, w1))"

definition is_validator_active ::
  "http_env \<Rightarrow> string option \<Rightarrow> string \<Rightarrow> HuginnClient \<Rightarrow> world
     \<Rightarrow> py_error + (bool option \<times> HuginnClient \<times> world)" where
  "is_validator_active env secp_opt network c w =
     (case get_validator_uptime env secp_opt network None c w of
        Inl e \<Rightarrow> Inl e
      | Inr (uptime_opt, c1, w1) \<Rightarrow> Inr (map_option is_active uptime_opt, c1, w1))"

section \<open>The monitoring loop (main.py)\<close>

definition json_of_num :: "pynum option \<Rightarrow> json" where
  "json_of_num x = (case x of None \<Rightarrow> JNull | Some (PInt i) \<Rightarrow> JInt i | Some (PFloat r) \<Rightarrow> JFloat r)"

text \<open>
  What one health check tells the loop about a validator: \<open>is_active_validator\<close>, and
  \<open>huginn_data\<close>, which is the \<open>to_dict()\<close> of an uptime record or \<open>None\<close>.
\<close>

record observation =
  is_active_validator :: "bool option"
  huginn_data :: "ValidatorUptime option"

text \<open>
  The state-machine block of the loop body for one validator, at clock reading \<open>now\<close>:
  the transition, the transition whose message is handed to \<open>alerts.alert_info\<close>, and
  the machine afterwards.
\<close>

definition monitor_check ::
  "real \<Rightarrow> observation \<Rightarrow> ValidatorStateMachine
     \<Rightarrow> StateTransition option \<times> StateTransition option \<times> ValidatorStateMachine" where
  "monitor_check now obs m =
     (let active = is_active_validator obs;
          ever_active = (case huginn_data obs of None \<Rightarrow> False | Some h \<Rightarrow> is_ever_active h)
      in case (if current_state m = NEW \<and> ever_active
               then (None,
                     m\<lparr> current_state := (if active = Some True then ACTIVE else INACTIVE),
                        state_entered_at := JFloat now \<rparr>)
               else
                 (let ever_active' =
                        (if ever_active = False \<and> current_state m \<noteq> NEW then True
                         else ever_active)
                  in update now (case active of None \<Rightarrow> False | Some a \<Rightarrow> a) ever_active'
                       (case huginn_data obs of
                          None \<Rightarrow> Some []
                        | Some h \<Rightarrow> Some [(''round_diff'', json_of_num (round_diff h))])
                       m)) of
           (transition, m1) \<Rightarrow>
             (transition,
              (case transition of
                 None \<Rightarrow> None
               | Some t \<Rightarrow> if is_significant t then Some t else None),
              m1))"

text \<open>Successive checks of one validator, each with its clock reading.\<close>

fun monitor_run :: "(real \<times> observation) list \<Rightarrow> ValidatorStateMachine \<Rightarrow> ValidatorStateMachine" where
  "monitor_run [] m = m"
| "monitor_run ((now, obs) # rest) m = monitor_run rest (snd (snd (monitor_check now obs m)))"

section \<open>Outcomes and example runs\<close>

text \<open>An outcome that ends the retrying: a response with a status below 500.\<close>

fun is_terminal :: "http_outcome \<Rightarrow> bool" where
  "is_terminal (Returned r) = (status_code r < 500)"
| "is_terminal Raised = False"

text \<open>The response of an outcome, if it has one.\<close>

fun response_of :: "http_outcome \<Rightarrow> response option" where
  "response_of (Returned r) = Some r"
| "response_of Raised = None"

definition TESTNET_API :: string where
  "TESTNET_API = ''https://validator-api-testnet.huginn.tech/monad-api''"

definition start_world :: world where
  "start_world = \<lparr>clock = 1000, attempts = 0, events = []\<rparr>"

definition not_found :: http_outcome where
  "not_found = Returned (Response 404 (Some (JObj [(''error'', JStr ''not found'')])))"

definition round_report :: "int \<Rightarrow> http_outcome" where
  "round_report r =
     Returned (Response 200
       (Some (JObj [(''success'', JBool True), (''uptime'', JObj [(''last_round'', JInt r)])])))"


text \<open>Every reference validator fails; the validator \<open>0xabc\<close> has 100 events.\<close>

definition env_no_round :: http_env where
  "env_no_round url k =
     (if url = uptime_url TESTNET_API ''0xabc''
      then Returned (Response 200
             (Some (JObj [(''finalized_count'', JInt 100), (''timeout_count'', JInt 0),
                          (''total_events'', JInt 100), (''last_round'', JInt 145)])))
      else not_found)"

text \<open>
  Every reference validator fails; for the validator \<open>0xabc\<close> the server answers 200 with
  a body that is a list, or with counters that are strings.
\<close>

definition env_list_body :: http_env where
  "env_list_body url k =
     (if url = uptime_url TESTNET_API ''0xabc''
      then Returned (Response 200 (Some (JList [JStr ''maintenance''])))
      else not_found)"

definition env_string_counters :: http_env where
  "env_string_counters url k =
     (if url = uptime_url TESTNET_API ''0xabc''
      then Returned (Response 200
             (Some (JObj [(''success'', JBool True),
                          (''uptime'', JObj [(''total_events'', JStr ''1500''),
                                             (''finalized_count'', JStr ''1500'')])])))
      else not_found)"

text \<open>A server that answers 503, then drops the connection, then answers 200.\<close>

definition env_recovering :: http_env where
  "env_recovering url k =
     (if k = 0 then Returned (Response 503 None)
      else if k = 1 then Raised
      else Returned (Response 200 (Some (JObj [(''success'', JBool True)]))))"

text \<open>A client with a round of 500 cached for testnet long ago.\<close>

definition client_with_stale_round :: HuginnClient where
  "client_with_stale_round =
     (new_client default_config)
       \<lparr>network_rounds := [''testnet'' \<mapsto> 500], network_round_times := [''testnet'' \<mapsto> 0]\<rparr>"

text \<open>The record of a validator that has been active, fetched when no round was known.\<close>

definition uptime_without_round :: ValidatorUptime where
  "uptime_without_round =
     \<lparr> validator_id = JInt 42, uptime_validator_name = JStr ''Test Validator'',
       secp_address = ''0xabc'', is_active = False, is_ever_active = True,
       uptime_percent = 100, finalized_count = JInt 100, timeout_count = JInt 0,
       total_events = JInt 100, last_round = JInt 145, last_block_height = JNull,
       since_utc = JNull, fetched_at = 1000, round_diff = None,
       current_network_round = None, confidence = ''unknown'' \<rparr>"

section \<open>Theorems\<close>

subsection \<open>Cross-validation\<close>

text \<open>
  C3. \<open>_evaluate_sources\<close> computes exactly the decision table: no source gives
  (low, agree, inactive); one source gives (medium, agree, that source); two equal sources
  give (high, agree, the value); two different sources give (low, disagree, the first
  source).
\<close>

theorem evaluate_sources_table:
  "evaluate_sources None None = (''low'', True, False)
   \<and> evaluate_sources (Some a) None = (''medium'', True, a)
   \<and> evaluate_sources None (Some b) = (''medium'', True, b)
   \<and> evaluate_sources (Some a) (Some a) = (''high'', True, a)
   \<and> (a \<noteq> b \<longrightarrow> evaluate_sources (Some a) (Some b) = (''low'', False, a))"
  by (simp add: evaluate_sources_def)

theorem evaluate_sources_table_witness:
  "True \<noteq> False \<and> evaluate_sources (Some True) (Some False) = (''low'', False, True)"
  using evaluate_sources_table [of True False] by simp

subsection \<open>Lifecycle state machine\<close>

text \<open>\<open>update\<close> alone does go back to \<open>NEW\<close> when it is told that the validator was never active.\<close>

lemma update_can_return_to_NEW:
  "current_state (snd (update now False False meta m)) = NEW"
  by (simp add: update_def Let_def)

lemma monitor_check_keeps_left:
  "current_state m \<noteq> NEW \<Longrightarrow> current_state (snd (snd (monitor_check now obs m))) \<noteq> NEW"
  by (auto simp: monitor_check_def update_def Let_def split: prod.splits option.splits if_splits)

text \<open>
  C2. Once a validator's machine has left \<open>NEW\<close>, no sequence of checks of the monitoring
  loop, which is what calls \<open>update\<close>, brings its \<open>current_state\<close> back to \<open>NEW\<close>:
  outside \<open>NEW\<close> the loop passes \<open>is_ever_active = True\<close> whatever the sources said.
\<close>

theorem monitor_never_returns_to_NEW:
  "current_state m \<noteq> NEW \<Longrightarrow> current_state (monitor_run checks m) \<noteq> NEW"
proof (induction checks arbitrary: m)
  case Nil
  then show ?case by simp
next
  case (Cons ch rest)
  obtain now obs where ch: "ch = (now, obs)" by (cases ch)
  from Cons.prems have "current_state (snd (snd (monitor_check now obs m))) \<noteq> NEW"
    by (rule monitor_check_keeps_left)
  then show ?case unfolding ch by (simp add: Cons.IH)
qed

theorem monitor_never_returns_to_NEW_witness:
  "current_state (init_machine 0 ''val-1'' (Some ACTIVE)) \<noteq> NEW
   \<and> current_state
       (monitor_run
          [(1, \<lparr>is_active_validator = None, huginn_data = None\<rparr>),
           (2, \<lparr>is_active_validator = Some False, huginn_data = None\<rparr>)]
          (init_machine 0 ''val-1'' (Some ACTIVE))) \<noteq> NEW"
proof -
  have h: "current_state (init_machine 0 ''val-1'' (Some ACTIVE)) \<noteq> NEW"
    by (simp add: init_machine_def)
  show ?thesis
    using h monitor_never_returns_to_NEW
      [OF h, of "[(1, \<lparr>is_active_validator = None, huginn_data = None\<rparr>),
                 (2, \<lparr>is_active_validator = Some False, huginn_data = None\<rparr>)]"]
    by simp
qed

text \<open>\<open>from_dict\<close> raises on no input at all.\<close>

lemma from_dict_total: "\<exists>m. from_dict now data = Inr m"
  by (cases data) (simp_all add: from_dict_def Let_def split: sum.splits)

text \<open>\<open>load_state\<close> on a missing, empty, unreadable or corrupted file.\<close>

lemma load_state_default:
  "f \<in> {Missing, EmptyFile, Unreadable, Contents None, Contents (Some (JList [])),
         Contents (Some (JObj [(''current_state'', JInt 3)]))} \<Longrightarrow>
   current_state (load_state now f) = NEW \<and> validator_name (load_state now f) = ''unknown''"
  by (auto simp: load_state_def from_dict_def init_machine_def dict_get_def Let_def
        ValidatorState_of_def)

lemma ValidatorState_of_value: "ValidatorState_of (JStr (state_value s)) = Inr s"
  by (cases s) (simp_all add: ValidatorState_of_def)

text \<open>
  C8, as the code has it. For every state machine whose \<open>validator_name\<close> is not empty,
  \<open>from_dict(machine.to_dict())\<close> is a machine with the same \<open>current_state\<close> and
  \<open>validator_name\<close>; and \<open>from_dict({})\<close>, \<open>from_dict(None)\<close> and
  \<open>from_dict("not a dict")\<close> each give a machine in state \<open>NEW\<close> named \<open>unknown\<close>,
  without raising.
\<close>

theorem from_dict_to_dict:
  "(validator_name m \<noteq> [] \<longrightarrow>
      (\<exists>m'. from_dict now (to_dict m) = Inr m'
         \<and> current_state m' = current_state m \<and> validator_name m' = validator_name m))
   \<and> from_dict now (JObj []) = Inr (init_machine now ''unknown'' (Some NEW))
   \<and> from_dict now JNull = Inr (init_machine now ''unknown'' (Some NEW))
   \<and> from_dict now (JStr ''not a dict'') = Inr (init_machine now ''unknown'' (Some NEW))
   \<and> current_state (init_machine now ''unknown'' (Some NEW)) = NEW
   \<and> validator_name (init_machine now ''unknown'' (Some NEW)) = ''unknown''"
  by (simp add: from_dict_def to_dict_def dict_get_def init_machine_def ValidatorState_of_value
      Let_def)

theorem from_dict_to_dict_witness:
  "validator_name (init_machine 0 ''val-1'' (Some ACTIVE)) \<noteq> []
   \<and> (\<exists>m'. from_dict 5 (to_dict (init_machine 0 ''val-1'' (Some ACTIVE))) = Inr m'
         \<and> current_state m' = ACTIVE \<and> validator_name m' = ''val-1'')"
  using from_dict_to_dict [of "init_machine 0 ''val-1'' (Some ACTIVE)" 5]
  by (simp add: init_machine_def)

text \<open>
  The round trip as C8 states it, for every machine, fails on a machine with the empty
  name: \<open>from_dict\<close> takes an empty \<open>validator_name\<close> for a corrupted one.
\<close>

theorem from_dict_to_dict_empty_name:
  "from_dict 0 (to_dict (init_machine 0 [] (Some ACTIVE)))
     = Inr (init_machine 0 ''unknown'' (Some ACTIVE))
   \<and> validator_name (init_machine 0 ''unknown'' (Some ACTIVE))
     \<noteq> validator_name (init_machine 0 [] (Some ACTIVE))"
  by (simp add: from_dict_def to_dict_def dict_get_def init_machine_def ValidatorState_of_def
      Let_def)

subsection \<open>Monitoring loop\<close>

text \<open>
  C9. When the machine is still in \<open>NEW\<close> and the observation has
  \<open>is_ever_active = True\<close>, the loop sets \<open>current_state\<close> itself, to \<open>ACTIVE\<close> when
  \<open>is_active\<close> holds and to \<open>INACTIVE\<close> otherwise, without calling \<open>update\<close>: there is no
  transition, the history is as it was, and nothing is handed to the alerts.
\<close>

theorem restart_special_case:
  "current_state m = NEW \<Longrightarrow> huginn_data obs = Some h \<Longrightarrow> is_ever_active h \<Longrightarrow>
   monitor_check now obs m =
     (None, None,
      m\<lparr> current_state := (if is_active_validator obs = Some True then ACTIVE else INACTIVE),
         state_entered_at := JFloat now \<rparr>)
   \<and> transition_history (snd (snd (monitor_check now obs m))) = transition_history m"
  by (simp add: monitor_check_def Let_def)

theorem restart_special_case_witness:
  "current_state (init_machine 0 ''val-1'' None) = NEW
   \<and> is_ever_active uptime_without_round
   \<and> monitor_check 5
        \<lparr>is_active_validator = Some True, huginn_data = Some uptime_without_round\<rparr>
        (init_machine 0 ''val-1'' None)
      = (None, None, (init_machine 0 ''val-1'' None)
                       \<lparr>current_state := ACTIVE, state_entered_at := JFloat 5\<rparr>)"
proof -
  have h1: "current_state (init_machine 0 ''val-1'' None) = NEW"
    by (simp add: init_machine_def)
  have h2: "huginn_data \<lparr>is_active_validator = Some True,
                         huginn_data = Some uptime_without_round\<rparr>
              = Some uptime_without_round"
    by simp
  have h3: "is_ever_active uptime_without_round"
    by (simp add: uptime_without_round_def)
  show ?thesis using h1 h3 restart_special_case [OF h1 h2 h3, of 5] by simp
qed

subsection \<open>Circuit breaker\<close>

lemma record_failures_snoc:
  "record_failures (ts @ [t]) cb = record_failure t (record_failures ts cb)"
  by (simp add: record_failures_def)

lemma record_failures_fields:
  "failure_threshold (record_failures ts cb) = failure_threshold cb
   \<and> recovery_time (record_failures ts cb) = recovery_time cb
   \<and> failure_count (record_failures ts cb) = failure_count cb + int (length ts)"
proof (induction ts rule: rev_induct)
  case Nil
  then show ?case by (simp add: record_failures_def)
next
  case (snoc t ts)
  then show ?case by (simp add: record_failures_snoc record_failure_def Let_def)
qed

lemma record_failures_last:
  assumes "ts \<noteq> []"
  shows "last_failure_time (record_failures ts cb) = Some (last ts)"
    and "failure_threshold cb \<le> failure_count cb + int (length ts)
         \<Longrightarrow> state (record_failures ts cb) = OPEN"
proof -
  obtain ts' t where ts: "ts = ts' @ [t]"
    using assms by (cases ts rule: rev_cases) auto
  show "last_failure_time (record_failures ts cb) = Some (last ts)"
    by (simp add: ts record_failures_snoc record_failure_def Let_def)
  assume "failure_threshold cb \<le> failure_count cb + int (length ts)"
  then show "state (record_failures ts cb) = OPEN"
    using record_failures_fields [of ts' cb]
    by (simp add: ts record_failures_snoc record_failure_def Let_def)
qed

text \<open>
  C5. After \<open>failure_threshold\<close> consecutive \<open>record_failure()\<close> calls the breaker is
  \<open>OPEN\<close>; \<open>can_execute()\<close> is \<open>False\<close>, and changes nothing, as long as less than
  \<open>recovery_time\<close> has passed since the last failure; once at least \<open>recovery_time\<close>
  has passed it is \<open>True\<close> and moves the breaker to \<open>HALF_OPEN\<close>, and a
  \<open>record_success()\<close> after that gives \<open>CLOSED\<close> with \<open>failure_count\<close> 0. The threshold
  is a positive number of calls, the count starts non-negative, and clock readings are
  Unix times, so not zero.
\<close>

theorem circuit_breaker_opens_and_recovers:
  assumes threshold: "0 < failure_threshold cb"
    and count: "0 \<le> failure_count cb"
    and calls: "int (length ts) = failure_threshold cb"
    and clock: "last ts \<noteq> 0"
  shows "state (record_failures ts cb) = OPEN
    \<and> (now - last ts < real_of_int (recovery_time cb)
         \<longrightarrow> can_execute now (record_failures ts cb) = (False, record_failures ts cb))
    \<and> (now - last ts \<ge> real_of_int (recovery_time cb)
         \<longrightarrow> fst (can_execute now (record_failures ts cb)) = True
             \<and> state (snd (can_execute now (record_failures ts cb))) = HALF_OPEN
             \<and> state (record_success (snd (can_execute now (record_failures ts cb)))) = CLOSED
             \<and> failure_count (record_success (snd (can_execute now (record_failures ts cb)))) = 0)"
proof -
  from threshold calls have ne: "ts \<noteq> []" by auto
  from count calls have "failure_threshold cb \<le> failure_count cb + int (length ts)" by simp
  with ne have op: "state (record_failures ts cb) = OPEN"
    by (rule record_failures_last(2))
  have lf: "last_failure_time (record_failures ts cb) = Some (last ts)"
    using ne by (rule record_failures_last(1))
  have rt: "recovery_time (record_failures ts cb) = recovery_time cb"
    using record_failures_fields by blast
  show ?thesis
    using clock by (simp add: can_execute_def op lf rt record_success_def)
qed

theorem circuit_breaker_opens_and_recovers_witness:
  "0 < failure_threshold (new_breaker 3 60)
   \<and> 0 \<le> failure_count (new_breaker 3 60)
   \<and> int (length [100, 101, 102 :: real]) = failure_threshold (new_breaker 3 60)
   \<and> last [100, 101, 102 :: real] \<noteq> 0
   \<and> state (record_failures [100, 101, 102] (new_breaker 3 60)) = OPEN
   \<and> fst (can_execute 130 (record_failures [100, 101, 102] (new_breaker 3 60))) = False
   \<and> fst (can_execute 162 (record_failures [100, 101, 102] (new_breaker 3 60))) = True
   \<and> state (snd (can_execute 162 (record_failures [100, 101, 102] (new_breaker 3 60)))) = HALF_OPEN
   \<and> state (record_success (snd (can_execute 162
        (record_failures [100, 101, 102] (new_breaker 3 60))))) = CLOSED"
proof -
  have h1: "0 < failure_threshold (new_breaker 3 60)" by (simp add: new_breaker_def)
  have h2: "0 \<le> failure_count (new_breaker 3 60)" by (simp add: new_breaker_def)
  have h3: "int (length [100, 101, 102 :: real]) = failure_threshold (new_breaker 3 60)"
    by (simp add: new_breaker_def)
  have h4: "last [100, 101, 102 :: real] \<noteq> 0" by simp
  have rt: "recovery_time (new_breaker 3 60) = 60" by (simp add: new_breaker_def)
  show ?thesis
    using h1 h2 h3 h4
      circuit_breaker_opens_and_recovers [OF h1 h2 h3 h4, of 130]
      circuit_breaker_opens_and_recovers [OF h1 h2 h3 h4, of 162]
    by (simp add: rt)
qed

subsection \<open>Fetching with retry\<close>

lemma retry_delay_values: "retry_delay 0 = 1" "retry_delay 1 = 2"
  by (simp_all add: retry_delay_def RETRY_BASE_DELAY_def RETRY_MAX_DELAY_def)

lemma retry_delay_formula: "retry_delay attempt = min (1 * 2 ^ attempt) 5"
  by (simp add: retry_delay_def RETRY_BASE_DELAY_def RETRY_MAX_DELAY_def)

lemma retry_loop_first_terminal:
  assumes "is_terminal (env url (attempts w))"
  shows "retry_loop env url 0 cb w =
           (response_of (env url (attempts w)), record_success cb,
            w\<lparr>attempts := attempts w + 1, events := events w @ [Get url, RecordSuccess]\<rparr>)"
  using assms
  by (cases "env url (attempts w)")
     (simp_all add: retry_loop.simps [of env url 0] MAX_RETRIES_def http_get_def log_event_def)

lemma retry_loop_second_terminal:
  assumes "\<not> is_terminal (env url (attempts w))"
    and "is_terminal (env url (attempts w + 1))"
  shows "retry_loop env url 0 cb w =
           (response_of (env url (attempts w + 1)), record_success cb,
            w\<lparr>clock := clock w + retry_delay 0, attempts := attempts w + 2,
              events := events w @ [Get url, Sleep (retry_delay 0), Get url, RecordSuccess]\<rparr>)"
  using assms
  by (cases "env url (attempts w)"; cases "env url (attempts w + 1)")
     (simp_all add: retry_loop.simps [of env url 0] retry_loop.simps [of env url 1]
        retry_loop.simps [of env url "Suc 0"]
        MAX_RETRIES_def http_get_def log_event_def sleep_def)

lemma retry_loop_third_terminal:
  assumes "\<not> is_terminal (env url (attempts w))"
    and "\<not> is_terminal (env url (attempts w + 1))"
    and "is_terminal (env url (attempts w + 2))"
  shows "retry_loop env url 0 cb w =
           (response_of (env url (attempts w + 2)), record_success cb,
            w\<lparr>clock := clock w + retry_delay 0 + retry_delay 1, attempts := attempts w + 3,
              events := events w @ [Get url, Sleep (retry_delay 0), Get url,
                                    Sleep (retry_delay 1), Get url, RecordSuccess]\<rparr>)"
  using assms
  by (cases "env url (attempts w)"; cases "env url (attempts w + 1)";
      cases "env url (attempts w + 2)")
     (simp_all add: retry_loop.simps [of env url 0] retry_loop.simps [of env url 1]
        retry_loop.simps [of env url "Suc 0"] retry_loop.simps [of env url 2]
        retry_loop.simps [of env url "Suc (Suc 0)"]
        MAX_RETRIES_def http_get_def log_event_def sleep_def numeral_2_eq_2)

lemma retry_loop_exhausted:
  assumes "\<not> is_terminal (env url (attempts w))"
    and "\<not> is_terminal (env url (attempts w + 1))"
    and "\<not> is_terminal (env url (attempts w + 2))"
  shows "retry_loop env url 0 cb w =
           (response_of (env url (attempts w + 2)),
            record_failure (clock w + retry_delay 0 + retry_delay 1) cb,
            w\<lparr>clock := clock w + retry_delay 0 + retry_delay 1, attempts := attempts w + 3,
              events := events w @ [Get url, Sleep (retry_delay 0), Get url,
                                    Sleep (retry_delay 1), Get url, RecordFailure]\<rparr>)"
  using assms
  by (cases "env url (attempts w)"; cases "env url (attempts w + 1)";
      cases "env url (attempts w + 2)")
     (simp_all add: retry_loop.simps [of env url 0] retry_loop.simps [of env url 1]
        retry_loop.simps [of env url "Suc 0"] retry_loop.simps [of env url 2]
        retry_loop.simps [of env url "Suc (Suc 0)"] retry_loop.simps [of env url 3]
        retry_loop.simps [of env url "Suc (Suc (Suc 0))"]
        MAX_RETRIES_def http_get_def log_event_def sleep_def numeral_2_eq_2 numeral_3_eq_3)

text \<open>
  C7. Whatever the servers do, \<open>_fetch_with_retry\<close>, when the breaker lets it run, makes
  one attempt after another until a response has a status below 500, which it returns
  without a retry and records as a success of the breaker (a 4xx on the first attempt is
  one attempt); a status of 500 or more and a transport failure are retried, up to three
  attempts in all, with a sleep of \<open>min(1.0 * 2 ** attempt, 5.0)\<close> seconds between
  attempts; and \<open>record_failure\<close> is called, once, exactly when all three attempts went
  by without a status below 500. When the breaker refuses, nothing is attempted.
\<close>

theorem fetch_with_retry_policy:
  assumes breaker: "get_circuit_breaker c network = (cb, c1)"
    and gate: "can_execute (clock w) cb = (allowed, cb1)"
    and run: "fetch_with_retry env url network c w = (r, c', w')"
    and o0: "o0 = env url (attempts w)"
    and o1: "o1 = env url (attempts w + 1)"
    and o2: "o2 = env url (attempts w + 2)"
  shows "(\<not> allowed \<longrightarrow> r = None \<and> w' = w)
    \<and> (allowed \<and> is_terminal o0 \<longrightarrow>
         r = response_of o0 \<and> attempts w' = attempts w + 1
         \<and> events w' = events w @ [Get url, RecordSuccess]
         \<and> circuit_breakers c' (lower network) = Some (record_success cb1))
    \<and> (allowed \<and> \<not> is_terminal o0 \<and> is_terminal o1 \<longrightarrow>
         r = response_of o1 \<and> attempts w' = attempts w + 2
         \<and> events w' = events w @ [Get url, Sleep (retry_delay 0), Get url, RecordSuccess]
         \<and> circuit_breakers c' (lower network) = Some (record_success cb1))
    \<and> (allowed \<and> \<not> is_terminal o0 \<and> \<not> is_terminal o1 \<and> is_terminal o2 \<longrightarrow>
         r = response_of o2 \<and> attempts w' = attempts w + 3
         \<and> events w' = events w @ [Get url, Sleep (retry_delay 0), Get url,
                                   Sleep (retry_delay 1), Get url, RecordSuccess]
         \<and> circuit_breakers c' (lower network) = Some (record_success cb1))
    \<and> (allowed \<and> \<not> is_terminal o0 \<and> \<not> is_terminal o1 \<and> \<not> is_terminal o2 \<longrightarrow>
         r = response_of o2 \<and> attempts w' = attempts w + 3
         \<and> events w' = events w @ [Get url, Sleep (retry_delay 0), Get url,
                                   Sleep (retry_delay 1), Get url, RecordFailure]
         \<and> circuit_breakers c' (lower network) = Some (record_failure (clock w') cb1))
    \<and> (\<forall>attempt. retry_delay attempt = min (1 * 2 ^ attempt) 5)"
proof -
  have run': "(if \<not> allowed then (None, c1, w)
               else (case retry_loop env url 0 cb1 w of
                       (r, cb2, w2) \<Rightarrow>
                         (r, c1\<lparr>circuit_breakers := (circuit_breakers c1)(lower network \<mapsto> cb2)\<rparr>,
                          w2))) = (r, c', w')"
    using run by (simp add: fetch_with_retry_def breaker gate)
  have a: "\<not> allowed \<longrightarrow> r = None \<and> w' = w"
    using run' by auto
  have b: "allowed \<and> is_terminal o0 \<longrightarrow>
         r = response_of o0 \<and> attempts w' = attempts w + 1
         \<and> events w' = events w @ [Get url, RecordSuccess]
         \<and> circuit_breakers c' (lower network) = Some (record_success cb1)"
    using run' by (auto simp: o0 retry_loop_first_terminal)
  have c: "allowed \<and> \<not> is_terminal o0 \<and> is_terminal o1 \<longrightarrow>
         r = response_of o1 \<and> attempts w' = attempts w + 2
         \<and> events w' = events w @ [Get url, Sleep (retry_delay 0), Get url, RecordSuccess]
         \<and> circuit_breakers c' (lower network) = Some (record_success cb1)"
    using run' by (auto simp: o0 o1 retry_loop_second_terminal)
  have d: "allowed \<and> \<not> is_terminal o0 \<and> \<not> is_terminal o1 \<and> is_terminal o2 \<longrightarrow>
         r = response_of o2 \<and> attempts w' = attempts w + 3
         \<and> events w' = events w @ [Get url, Sleep (retry_delay 0), Get url,
                                   Sleep (retry_delay 1), Get url, RecordSuccess]
         \<and> circuit_breakers c' (lower network) = Some (record_success cb1)"
    using run' by (auto simp: o0 o1 o2 retry_loop_third_terminal)
  have e: "allowed \<and> \<not> is_terminal o0 \<and> \<not> is_terminal o1 \<and> \<not> is_terminal o2 \<longrightarrow>
         r = response_of o2 \<and> attempts w' = attempts w + 3
         \<and> events w' = events w @ [Get url, Sleep (retry_delay 0), Get url,
                                   Sleep (retry_delay 1), Get url, RecordFailure]
         \<and> circuit_breakers c' (lower network) = Some (record_failure (clock w') cb1)"
    using run' by (auto simp: o0 o1 o2 retry_loop_exhausted)
  have f: "\<forall>attempt. retry_delay attempt = min (1 * 2 ^ attempt) 5"
    by (simp add: retry_delay_formula)
  from a b c d e f show ?thesis by blast
qed

text \<open>Definitions unfolded to run the client on a concrete outside world.\<close>

lemmas run_defs =
  get_validator_uptime_def get_current_network_round_def multi_validator_strategy_def
  get_active_validator_id_via_gmonads_def REFERENCE_VALIDATOR_IDS_def get_endpoint_def
  default_config_def DEFAULT_ENDPOINTS_def reported_round_def fetch_with_retry_def
  get_circuit_breaker_def new_client_def can_execute_def new_breaker_def retry_loop.simps
  http_get_def uptime_url_def MAX_RETRIES_def log_event_def record_success_def
  record_failure_def sleep_def retry_delay_def RETRY_BASE_DELAY_def RETRY_MAX_DELAY_def
  CIRCUIT_BREAKER_FAILURE_THRESHOLD_def CIRCUIT_BREAKER_RECOVERY_TIME_def
  ACTIVE_SET_ROUND_THRESHOLD_def lower_def lower_char_def Let_def parse_uptime_response_def
  dict_get_def or_zero_def uptime_percentage_def active_status_def str_int_def str_nat.simps
  digit_char_def TESTNET_API_def start_world_def not_found_def round_report_def
  client_with_stale_round_def

theorem fetch_with_retry_policy_witness:
  "fst (fetch_with_retry env_recovering (uptime_url TESTNET_API ''1'') ''testnet''
          (new_client default_config) start_world)
     = Some (Response 200 (Some (JObj [(''success'', JBool True)])))
   \<and> events (snd (snd (fetch_with_retry env_recovering (uptime_url TESTNET_API ''1'')
          ''testnet'' (new_client default_config) start_world)))
     = [Get (uptime_url TESTNET_API ''1''), Sleep 1, Get (uptime_url TESTNET_API ''1''),
        Sleep 2, Get (uptime_url TESTNET_API ''1''), RecordSuccess]"
proof -
  let ?url = "uptime_url TESTNET_API ''1''"
  let ?c = "new_client default_config"
  let ?cb = "new_breaker CIRCUIT_BREAKER_FAILURE_THRESHOLD CIRCUIT_BREAKER_RECOVERY_TIME"
  have l: "lower ''testnet'' = ''testnet''" by (simp add: lower_def lower_char_def)
  have h1: "get_circuit_breaker ?c ''testnet''
              = (?cb, ?c\<lparr>circuit_breakers := (circuit_breakers ?c)(''testnet'' \<mapsto> ?cb)\<rparr>)"
    by (simp add: get_circuit_breaker_def l new_client_def Let_def)
  have h2: "can_execute (clock start_world) ?cb = (True, ?cb)"
    by (simp add: can_execute_def new_breaker_def)
  obtain r c' w' where run:
    "fetch_with_retry env_recovering ?url ''testnet'' ?c start_world = (r, c', w')"
    by (cases "fetch_with_retry env_recovering ?url ''testnet'' ?c start_world") auto
  from fetch_with_retry_policy [OF h1 h2 run refl refl refl]
  have "r = Some (Response 200 (Some (JObj [(''success'', JBool True)])))
        \<and> events w' = [Get ?url, Sleep 1, Get ?url, Sleep 2, Get ?url, RecordSuccess]"
    by (simp add: env_recovering_def start_world_def)
  with run show ?thesis by simp
qed

subsection \<open>Parsing an uptime response\<close>

lemma parse_uptime_response_Some:
  assumes "parse_uptime_response now secp data network_round used = Inr (Some u)"
  shows "\<exists>d events.
           data = JObj d
         \<and> num_of (or_zero (dict_get d ''total_events'' (JInt 0))) = Some events
         \<and> is_ever_active u = (0 < events)
         \<and> current_network_round u = network_round
         \<and> active_status network_round (dict_get d ''last_round'' JNull) (0 < events) used
             = Inr (round_diff u, is_active u, confidence u)"
proof (cases data)
  case (JObj d)
  with assms show ?thesis
    by (simp add: parse_uptime_response_def Let_def
        split: if_splits option.splits sum.splits prod.splits) auto
qed (use assms in \<open>simp_all add: parse_uptime_response_def split: if_splits\<close>)

lemma active_status_unverified:
  "active_status network_round v ever used = Inr (diff, active, conf) \<Longrightarrow>
   diff = None \<Longrightarrow> \<not> active"
  by (auto simp: active_status_def split: if_splits sum.splits)

text \<open>
  C4. In a parsed uptime record: when a network round and the validator's \<open>last_round\<close>
  are both there, \<open>round_diff = network_round - last_round\<close>,
  \<open>is_active = (round_diff <= 10000)\<close>, and the confidence is \<open>high\<close> for a fresh round
  and \<open>medium\<close> for one from the cache; when the network round or the \<open>last_round\<close> is
  missing and \<open>total_events > 0\<close>, then \<open>is_active = False\<close>, \<open>round_diff = None\<close> and
  the confidence is \<open>unknown\<close>.
\<close>

theorem parse_uptime_active_determination:
  assumes "parse_uptime_response now secp data network_round used = Inr (Some u)"
  shows "(\<forall>n r. network_round = Some n \<and> py_get data ''last_round'' JNull = Inr (JInt r)
            \<longrightarrow> round_diff u = Some (PInt (n - r))
                \<and> is_active u = (n - r \<le> 10000)
                \<and> confidence u = (if used then ''medium'' else ''high''))
       \<and> ((network_round = None \<or> py_get data ''last_round'' JNull = Inr JNull)
             \<and> is_ever_active u
            \<longrightarrow> \<not> is_active u \<and> round_diff u = None \<and> confidence u = ''unknown'')
       \<and> (\<forall>t. py_get data ''total_events'' (JInt 0) = Inr (JInt t)
            \<longrightarrow> is_ever_active u = (0 < t))"
proof -
  from parse_uptime_response_Some [OF assms] obtain d events where
    d: "data = JObj d"
    and ev: "num_of (or_zero (dict_get d ''total_events'' (JInt 0))) = Some events"
    and ea: "is_ever_active u = (0 < events)"
    and st: "active_status network_round (dict_get d ''last_round'' JNull) (0 < events) used
               = Inr (round_diff u, is_active u, confidence u)"
    by blast
  have a: "\<forall>n r. network_round = Some n \<and> py_get data ''last_round'' JNull = Inr (JInt r)
            \<longrightarrow> round_diff u = Some (PInt (n - r))
                \<and> is_active u = (n - r \<le> 10000)
                \<and> confidence u = (if used then ''medium'' else ''high'')"
    using st by (auto simp: d active_status_def ACTIVE_SET_ROUND_THRESHOLD_def)
  have b: "(network_round = None \<or> py_get data ''last_round'' JNull = Inr JNull)
             \<and> is_ever_active u
            \<longrightarrow> \<not> is_active u \<and> round_diff u = None \<and> confidence u = ''unknown''"
    using st ea by (auto simp: d active_status_def)
  have c: "\<forall>t. py_get data ''total_events'' (JInt 0) = Inr (JInt t)
            \<longrightarrow> is_ever_active u = (0 < t)"
    using ev ea by (auto simp: d or_zero_def split: if_splits)
  from a b c show ?thesis by blast
qed

theorem parse_uptime_active_determination_witness:
  "(\<exists>u. parse_uptime_response 7 ''0xabc''
           (JObj [(''total_events'', JInt 1500), (''finalized_count'', JInt 1500),
                  (''last_round'', JInt 145)]) (Some 150) False = Inr (Some u)
        \<and> round_diff u = Some (PInt 5) \<and> is_active u \<and> confidence u = ''high'')
   \<and> (\<exists>u. parse_uptime_response 7 ''0xabc''
           (JObj [(''total_events'', JInt 1500), (''finalized_count'', JInt 1500),
                  (''last_round'', JInt 145)]) (Some 150) True = Inr (Some u)
        \<and> round_diff u = Some (PInt 5) \<and> is_active u \<and> confidence u = ''medium'')
   \<and> (\<exists>u. parse_uptime_response 7 ''0xabc''
           (JObj [(''total_events'', JInt 100), (''last_round'', JInt 145)]) None False
           = Inr (Some u)
        \<and> is_ever_active u \<and> \<not> is_active u \<and> round_diff u = None
        \<and> confidence u = ''unknown'')"
proof -
  have "\<exists>u. parse_uptime_response 7 ''0xabc''
           (JObj [(''total_events'', JInt 1500), (''finalized_count'', JInt 1500),
                  (''last_round'', JInt 145)]) (Some 150) False = Inr (Some u)"
    by (simp add: run_defs)
  then obtain u1 where u1: "parse_uptime_response 7 ''0xabc''
           (JObj [(''total_events'', JInt 1500), (''finalized_count'', JInt 1500),
                  (''last_round'', JInt 145)]) (Some 150) False = Inr (Some u1)" by blast
  have "\<exists>u. parse_uptime_response 7 ''0xabc''
           (JObj [(''total_events'', JInt 1500), (''finalized_count'', JInt 1500),
                  (''last_round'', JInt 145)]) (Some 150) True = Inr (Some u)"
    by (simp add: run_defs)
  then obtain u2 where u2: "parse_uptime_response 7 ''0xabc''
           (JObj [(''total_events'', JInt 1500), (''finalized_count'', JInt 1500),
                  (''last_round'', JInt 145)]) (Some 150) True = Inr (Some u2)" by blast
  have "\<exists>u. parse_uptime_response 7 ''0xabc''
           (JObj [(''total_events'', JInt 100), (''last_round'', JInt 145)]) None False
           = Inr (Some u)"
    by (simp add: run_defs)
  then obtain u3 where u3: "parse_uptime_response 7 ''0xabc''
           (JObj [(''total_events'', JInt 100), (''last_round'', JInt 145)]) None False
           = Inr (Some u3)" by blast
  from parse_uptime_active_determination [OF u1] have r1:
    "round_diff u1 = Some (PInt 5) \<and> is_active u1 \<and> confidence u1 = ''high''"
    by (simp add: dict_get_def)
  from parse_uptime_active_determination [OF u2] have r2:
    "round_diff u2 = Some (PInt 5) \<and> is_active u2 \<and> confidence u2 = ''medium''"
    by (simp add: dict_get_def)
  from parse_uptime_active_determination [OF u3] have r3:
    "is_ever_active u3 \<and> \<not> is_active u3 \<and> round_diff u3 = None \<and> confidence u3 = ''unknown''"
    by (simp add: dict_get_def)
  from u1 u2 u3 r1 r2 r3 show ?thesis by blast
qed

subsection \<open>Network round\<close>

text \<open>What the requests leave untouched in the client.\<close>

lemma fetch_with_retry_frame:
  assumes "fetch_with_retry env url network c w = (r, c', w')"
  shows "cache c' = cache c \<and> cache_times c' = cache_times c \<and> config c' = config c
         \<and> network_rounds c' = network_rounds c
         \<and> network_round_times c' = network_round_times c
         \<and> network_round_ttl c' = network_round_ttl c"
  using assms
  by (auto simp: fetch_with_retry_def get_circuit_breaker_def Let_def
      split: prod.splits option.splits if_splits)

lemma query_reference_validators_frame:
  "query_reference_validators env base network ids rounds c w = Inr (rounds', c', w') \<Longrightarrow>
   cache c' = cache c \<and> cache_times c' = cache_times c \<and> config c' = config c
   \<and> network_rounds c' = network_rounds c
   \<and> network_round_times c' = network_round_times c
   \<and> network_round_ttl c' = network_round_ttl c"
proof (induction ids arbitrary: rounds c w)
  case Nil
  then show ?case by simp
next
  case (Cons ref_id ids)
  obtain r c1 w1 where f:
    "fetch_with_retry env (uptime_url base (str_int ref_id)) network c w = (r, c1, w1)"
    by (cases "fetch_with_retry env (uptime_url base (str_int ref_id)) network c w") auto
  note fr = fetch_with_retry_frame [OF f]
  from Cons.prems f obtain rounds1 where
    "query_reference_validators env base network ids rounds1 c1 w1 = Inr (rounds', c', w')"
    by (auto split: option.splits if_splits sum.splits)
  from Cons.IH [OF this] fr show ?case by simp
qed

lemma query_hinted_validator_frame:
  assumes "query_hinted_validator env base network vid c w = Inr (r, c', w')"
  shows "cache c' = cache c \<and> cache_times c' = cache_times c \<and> config c' = config c
         \<and> network_rounds c' = network_rounds c
         \<and> network_round_times c' = network_round_times c
         \<and> network_round_ttl c' = network_round_ttl c"
proof -
  obtain r1 c1 w1 where f:
    "fetch_with_retry env (uptime_url base (str_int vid)) network c w = (r1, c1, w1)"
    by (cases "fetch_with_retry env (uptime_url base (str_int vid)) network c w") auto
  note fr = fetch_with_retry_frame [OF f]
  from assms f have "c' = c1"
    by (auto simp: query_hinted_validator_def split: option.splits if_splits sum.splits)
  with fr show ?thesis by simp
qed

lemma multi_validator_strategy_frame:
  assumes "multi_validator_strategy env base network now c w = Inr (res, c', w')"
  shows "cache c' = cache c \<and> cache_times c' = cache_times c \<and> config c' = config c
         \<and> network_round_ttl c' = network_round_ttl c"
  using assms
  by (auto simp: multi_validator_strategy_def Let_def split: sum.splits if_splits
      dest!: query_reference_validators_frame)

lemma get_current_network_round_frame:
  assumes "get_current_network_round env network gm c w = Inr (res, c', w')"
  shows "cache c' = cache c \<and> cache_times c' = cache_times c \<and> config c' = config c
         \<and> network_round_ttl c' = network_round_ttl c"
  using assms
  by (auto simp: get_current_network_round_def Let_def
      split: if_splits option.splits sum.splits prod.splits
      dest!: multi_validator_strategy_frame query_hinted_validator_frame)

text \<open>
  Without a fresh cached round and without a validator named by gmonads,
  \<open>_get_current_network_round\<close> is the multi-validator fallback.
\<close>

lemma get_current_network_round_fallback:
  assumes "network_rounds c (lower network) = None
           \<or> \<not> clock w - (case network_round_times c (lower network) of None \<Rightarrow> 0 | Some t \<Rightarrow> t)
                 < real_of_int (network_round_ttl c)"
    and "get_active_validator_id_via_gmonads network gm = None"
  shows "get_current_network_round env network gm c w
           = multi_validator_strategy env (get_endpoint (config c) (Some network)) network
               (clock w) c w"
  using assms by (auto simp: get_current_network_round_def Let_def)






subsection \<open>Uptime of a validator\<close>

text \<open>A record that \<open>get_validator_uptime\<close> returns was in the cache or has just been parsed.\<close>

lemma get_validator_uptime_origin:
  assumes "get_validator_uptime env secp_opt network gm c w = Inr (Some u, c', w')"
  shows "(\<exists>k. cache c k = Some u)
         \<or> (\<exists>now secp data nr used. parse_uptime_response now secp data nr used = Inr (Some u))"
proof -
  from assms obtain secp where secp: "secp_opt = Some secp" "secp \<noteq> []"
    by (auto simp: get_validator_uptime_def split: option.splits if_splits)
  define key where "key = lower network @ '':'' @ lower secp"
  show ?thesis
  proof (cases "cache c key = Some u")
    case True
    then show ?thesis by blast
  next
    case False
    with assms secp obtain res c1 w1 where
      g: "get_current_network_round env network gm c w = Inr (res, c1, w1)"
      by (auto simp: get_validator_uptime_def Let_def key_def split: if_splits sum.splits)
    obtain r c2 w2 where f:
      "fetch_with_retry env (uptime_url (get_endpoint (config c1) (Some network)) secp) network c1 w1
         = (r, c2, w2)"
      by (cases "fetch_with_retry env (uptime_url (get_endpoint (config c1) (Some network)) secp)
                   network c1 w1") auto
    have same: "cache c2 = cache c"
      using get_current_network_round_frame [OF g] fetch_with_retry_frame [OF f] by simp
    from assms secp False g f same show ?thesis
      by (auto simp: get_validator_uptime_def Let_def key_def
          split: if_splits sum.splits option.splits prod.splits)
  qed
qed

text \<open>
  \<open>get_validator_uptime\<close> puts nothing into the cache but records it has parsed, so a cache
  that starts empty holds only records in which no round difference means not active.
\<close>

lemma get_validator_uptime_cache:
  assumes "get_validator_uptime env secp_opt network gm c w = Inr (res, c', w')"
  shows "cache c' = cache c
         \<or> (\<exists>k u now secp data nr used.
               cache c' = (cache c)(k \<mapsto> u)
             \<and> parse_uptime_response now secp data nr used = Inr (Some u))"
proof (cases "secp_opt = None \<or> secp_opt = Some []")
  case True
  with assms show ?thesis
    by (auto simp: get_validator_uptime_def)
next
  case False
  then obtain secp where secp: "secp_opt = Some secp" "secp \<noteq> []" by auto
  define key where "key = lower network @ '':'' @ lower secp"
  show ?thesis
  proof (cases "c' = c")
    case True
    then show ?thesis by simp
  next
    case False
    with assms secp obtain r c1 w1 where
      g: "get_current_network_round env network gm c w = Inr (r, c1, w1)"
      by (auto simp: get_validator_uptime_def Let_def split: if_splits sum.splits)
    obtain r2 c2 w2 where f:
      "fetch_with_retry env (uptime_url (get_endpoint (config c1) (Some network)) secp) network c1 w1
         = (r2, c2, w2)"
      by (cases "fetch_with_retry env (uptime_url (get_endpoint (config c1) (Some network)) secp)
                   network c1 w1") auto
    have same: "cache c2 = cache c"
      using get_current_network_round_frame [OF g] fetch_with_retry_frame [OF f] by simp
    from assms secp g f same show ?thesis
      by (auto simp: get_validator_uptime_def Let_def key_def
          split: if_splits sum.splits option.splits prod.splits)
  qed
qed

lemma get_validator_uptime_keeps_cache:
  assumes run: "get_validator_uptime env secp_opt network gm c w = Inr (res, c', w')"
    and cached: "\<forall>k v. cache c k = Some v \<longrightarrow> round_diff v = None \<longrightarrow> \<not> is_active v"
  shows "\<forall>k v. cache c' k = Some v \<longrightarrow> round_diff v = None \<longrightarrow> \<not> is_active v"
proof -
  from get_validator_uptime_cache [OF run] show ?thesis
  proof
    assume "cache c' = cache c"
    with cached show ?thesis by simp
  next
    assume "\<exists>k u now secp data nr used.
               cache c' = (cache c)(k \<mapsto> u)
             \<and> parse_uptime_response now secp data nr used = Inr (Some u)"
    then obtain k u now secp data nr used where
      c': "cache c' = (cache c)(k \<mapsto> u)"
      and p: "parse_uptime_response now secp data nr used = Inr (Some u)"
      by blast
    from parse_uptime_response_Some [OF p] have "round_diff u = None \<longrightarrow> \<not> is_active u"
      by (auto dest: active_status_unverified)
    with cached c' show ?thesis by auto
  qed
qed

text \<open>
  C10. When the record that \<open>get_active_set_status\<close> fetches has
  \<open>is_ever_active = True\<close> and \<open>round_diff = None\<close>, the status is \<open>is_active = True\<close>
  with the message \<open>Active (no round comparison available)\<close>, while the \<open>is_active\<close>
  field of that very record is \<open>False\<close>. The cache of the client holds records that
  \<open>_parse_uptime_response\<close> made, where no round difference means not active.
\<close>

theorem active_set_status_without_round:
  assumes fetched: "get_validator_uptime env secp_opt network None c w = Inr (Some u, c', w')"
    and ever: "is_ever_active u"
    and nodiff: "round_diff u = None"
    and cached: "\<forall>k v. cache c k = Some v \<longrightarrow> round_diff v = None \<longrightarrow> \<not> is_active v"
  shows "get_active_set_status float_repr env secp_opt network c w
           = Inr ((Some True, ''Active (no round comparison available)'', None), c', w')
         \<and> \<not> is_active u"
proof -
  have status: "get_active_set_status float_repr env secp_opt network c w
           = Inr ((Some True, ''Active (no round comparison available)'', None), c', w')"
    using fetched ever nodiff by (simp add: get_active_set_status_def active_set_status_def)
  from get_validator_uptime_origin [OF fetched] have "\<not> is_active u"
  proof
    assume "\<exists>k. cache c k = Some u"
    with cached nodiff show ?thesis by blast
  next
    assume "\<exists>now secp data nr used. parse_uptime_response now secp data nr used = Inr (Some u)"
    then obtain now secp data nr used where
      "parse_uptime_response now secp data nr used = Inr (Some u)" by blast
    from parse_uptime_response_Some [OF this] nodiff show ?thesis
      by (auto dest: active_status_unverified)
  qed
  with status show ?thesis by simp
qed

theorem active_set_status_without_round_witness:
  "\<exists>u c' w'.
     get_validator_uptime env_no_round (Some ''0xabc'') ''testnet'' None
       (new_client default_config) start_world = Inr (Some u, c', w')
     \<and> is_ever_active u \<and> round_diff u = None \<and> \<not> is_active u
     \<and> get_active_set_status (\<lambda>r. []) env_no_round (Some ''0xabc'') ''testnet''
         (new_client default_config) start_world
         = Inr ((Some True, ''Active (no round comparison available)'', None), c', w')"
proof -
  have "\<exists>u c' w'. get_validator_uptime env_no_round (Some ''0xabc'') ''testnet'' None
       (new_client default_config) start_world = Inr (Some u, c', w')
     \<and> is_ever_active u \<and> round_diff u = None"
    by (simp add: run_defs env_no_round_def)
  then obtain u c' w' where
    f: "get_validator_uptime env_no_round (Some ''0xabc'') ''testnet'' None
       (new_client default_config) start_world = Inr (Some u, c', w')"
    and e: "is_ever_active u" and n: "round_diff u = None"
    by blast
  have c: "\<forall>k v. cache (new_client default_config) k = Some v \<longrightarrow> round_diff v = None
             \<longrightarrow> \<not> is_active v"
    by (simp add: new_client_def)
  from active_set_status_without_round [OF f e n c, of "\<lambda>r. []"] f e n
  show ?thesis by blast
qed

text \<open>
  C1 fails on the code. A response with status 200 whose JSON body is a non-empty list
  makes \<open>get_validator_uptime\<close> raise \<open>AttributeError\<close>, and one whose counters are
  strings makes it raise \<open>TypeError\<close>: \<open>_parse_uptime_response\<close> calls \<open>data.get\<close> and
  compares \<open>total_events > 0\<close> outside any \<open>try\<close>.
\<close>

theorem get_validator_uptime_raises:
  "get_validator_uptime env_list_body (Some ''0xabc'') ''testnet'' None
     (new_client default_config) start_world = Inl AttributeError
   \<and> get_validator_uptime env_string_counters (Some ''0xabc'') ''testnet'' None
     (new_client default_config) start_world = Inl TypeError"
  by (simp add: run_defs env_list_body_def env_string_counters_def)

end
